theory Spec2Isabelle
  imports Main "HOL-Library.Multiset" "HOL-Library.Sublist"
begin

section \<open>ENT handover tracker: the record store of App.py\<close>

text \<open>
  The development embeds the record store of \<^verbatim>\<open>src/App.py\<close>: the in-memory patient
  table \<^verbatim>\<open>p_df\<close>, the two persistence backends (local CSV files, Google Sheets
  worksheets), \<^verbatim>\<open>upsert_patient\<close>, \<^verbatim>\<open>discharge_patient\<close>, the audit
  log, the sort of the board view and the checklist parser of the jobs tab.

  Conventions of the model.
  \<^item> A string is a list of code points below 256 (\<^typ>\<open>char\<close> read as a code point).
  \<^item> A table cell is a text or a missing value. pandas' datetime cells are kept as the
    text of the timestamp and \<^verbatim>\<open>NaT\<close> as the missing value; numbers are kept as
    their text.
  \<^item> A Python dict with string keys is a map \<^typ>\<open>string \<rightharpoonup> 'a\<close>; so is a row of a
    DataFrame (column label to cell).
  \<^item> The clock \<^verbatim>\<open>_now_iso()\<close> and \<^verbatim>\<open>_new_uid()\<close> are inputs: every call
    of the source is one argument of the model, in the order of the calls.
  \<^item> Calls to the backends do not fail (no I/O error is modelled).

  The widgets, the choice of the backend at start-up, the filters of the view and the
  export are outside the model; the save handler of the edit form is in it, since the
  check of the patient name is made there.
\<close>

subsection \<open>Cells, dicts, columns\<close>

datatype cell = Str string | NaN

type_synonym pydict = "string \<rightharpoonup> cell"

type_synonym row = "string \<rightharpoonup> cell"

definition PATIENT_COLUMNS :: "string list" where
  "PATIENT_COLUMNS =
     [''uid'', ''Patient Name'', ''Hospital Number'', ''NHS Number'', ''Date of Birth'',
      ''Ward/Bed'', ''Reason for Admission'', ''PMH/PSH/DH'', ''Progress'', ''Jobs'',
      ''Priority'', ''Assigned To'', ''Status'', ''Last Updated'']"

definition AUDIT_COLUMNS :: "string list" where
  "AUDIT_COLUMNS =
     [''timestamp'', ''user_role'', ''user_initials'', ''action'', ''uid'',
      ''patient_name'', ''details'']"

definition DEFAULT_PRIORITY :: string where
  "DEFAULT_PRIORITY = ''Medium''"

definition DEFAULT_STATUS :: string where
  "DEFAULT_STATUS = ''Active''"

text \<open>Python truth value of \<^verbatim>\<open>d.get(k)\<close>: a missing key gives \<^verbatim>\<open>None\<close>, the empty
  text is false, a float NaN is true.\<close>

fun truthy :: "cell option \<Rightarrow> bool" where
  "truthy None = False"
| "truthy (Some (Str s)) = (s \<noteq> [])"
| "truthy (Some NaN) = True"

text \<open>Python \<^verbatim>\<open>==\<close> on cells: NaN equals nothing, itself included.\<close>

fun py_eq :: "cell \<Rightarrow> cell \<Rightarrow> bool" where
  "py_eq (Str a) (Str b) = (a = b)"
| "py_eq _ _ = False"

text \<open>\<^verbatim>\<open>x in series.values\<close>: some element equals x.\<close>

definition py_in :: "cell \<Rightarrow> cell list \<Rightarrow> bool" where
  "py_in v vs = (\<exists>u \<in> set vs. py_eq u v)"

text \<open>\<^verbatim>\<open>str(x)\<close>.\<close>

fun py_str :: "cell \<Rightarrow> string" where
  "py_str (Str s) = s"
| "py_str NaN = ''nan''"

text \<open>\<^verbatim>\<open>d.get(k, default)\<close>.\<close>

definition dict_get :: "(string \<rightharpoonup> 'a) \<Rightarrow> string \<Rightarrow> 'a \<Rightarrow> 'a" where
  "dict_get d k dflt = (case d k of Some v \<Rightarrow> v | None \<Rightarrow> dflt)"

text \<open>The cell of a row under a column label (a frame has a cell, possibly NaN, under
  each of its columns).\<close>

definition at :: "row \<Rightarrow> string \<Rightarrow> cell" where
  "at r c = (case r c of Some v \<Rightarrow> v | None \<Rightarrow> NaN)"

text \<open>\<^verbatim>\<open>df[c].values\<close>.\<close>

definition column :: "string \<Rightarrow> row list \<Rightarrow> cell list" where
  "column c df = map (\<lambda>r. at r c) df"

text \<open>Position of the first element that satisfies P: \<^verbatim>\<open>df.index[mask][0]\<close> on a frame
  whose index is 0, 1, 2, ... (the callers test membership first).\<close>

fun first_index :: "('a \<Rightarrow> bool) \<Rightarrow> 'a list \<Rightarrow> nat" where
  "first_index P [] = 0"
| "first_index P (x # xs) = (if P x then 0 else Suc (first_index P xs))"

subsection \<open>Frames\<close>

record frame =
  columns :: "string list"
  rows :: "row list"

text \<open>\<^verbatim>\<open>pd.DataFrame(dicts, columns=cols)\<close>: one row per dict, exactly the given columns,
  NaN where a dict has no such key.\<close>

definition DataFrame :: "pydict list \<Rightarrow> string list \<Rightarrow> row list" where
  "DataFrame ds cols =
     map (\<lambda>d c. if c \<in> set cols then Some (dict_get d c NaN) else None) ds"

text \<open>\<^verbatim>\<open>df[c] = ""\<close> for a new column c.\<close>

definition add_column :: "string \<Rightarrow> frame \<Rightarrow> frame" where
  "add_column c df =
     \<lparr>columns = columns df @ [c], rows = map (\<lambda>r. r(c \<mapsto> Str [])) (rows df)\<rparr>"

text \<open>\<^verbatim>\<open>df[cols]\<close>.\<close>

definition select_columns :: "frame \<Rightarrow> string list \<Rightarrow> frame" where
  "select_columns df cols = \<lparr>columns = cols, rows = map (\<lambda>r. r |` set cols) (rows df)\<rparr>"

subsection \<open>The CSV backend\<close>

text \<open>
  A file of the CSV backend: absent, of size zero, not parseable by
  \<^verbatim>\<open>pd.read_csv\<close>, or a table with a header and one line per row. A table holds
  the cells as they were written; \<^verbatim>\<open>pd.read_csv\<close> reads a field that spells a
  missing value (the empty field among them) as NaN, and gives every row a cell under
  every column of the header.
\<close>

datatype csv_file = Absent | Zero_size | Unreadable | Table frame

definition na_values :: "string list" where
  "na_values =
     ['''', ''#N/A'', ''#N/A N/A'', ''#NA'', ''-1.#IND'', ''-1.#QNAN'', ''-NaN'', ''-nan'',
      ''1.#IND'', ''1.#QNAN'', ''<NA>'', ''N/A'', ''NA'', ''NULL'', ''NaN'', ''None'',
      ''n/a'', ''nan'', ''null'']"

fun read_cell :: "cell \<Rightarrow> cell" where
  "read_cell (Str s) = (if s \<in> set na_values then NaN else Str s)"
| "read_cell NaN = NaN"

text \<open>\<^verbatim>\<open>path.exists() and path.stat().st_size > 0\<close>.\<close>

fun exists_nonempty :: "csv_file \<Rightarrow> bool" where
  "exists_nonempty Absent = False"
| "exists_nonempty Zero_size = False"
| "exists_nonempty _ = True"

text \<open>\<^verbatim>\<open>pd.read_csv(path)\<close>; None when it raises.\<close>

fun read_csv :: "csv_file \<Rightarrow> frame option" where
  "read_csv (Table df) =
     Some \<lparr>columns = columns df,
           rows = map (\<lambda>r c. if c \<in> set (columns df) then Some (read_cell (at r c)) else None)
                    (rows df)\<rparr>"
| "read_csv _ = None"

text \<open>\<^verbatim>\<open>df.to_csv(path, index=False)\<close>: the new content of the file.\<close>

definition to_csv :: "frame \<Rightarrow> csv_file" where
  "to_csv df =
     Table \<lparr>columns = columns df,
            rows = map (\<lambda>r c. if c \<in> set (columns df) then Some (at r c) else None) (rows df)\<rparr>"

text \<open>\<^verbatim>\<open>_load_csv(path, columns)\<close>. Every exception of the try block is swallowed and
  the empty frame returned.\<close>

definition load_csv :: "csv_file \<Rightarrow> string list \<Rightarrow> frame" where
  "load_csv path cols =
     (if exists_nonempty path then
        (case read_csv path of
           Some df \<Rightarrow>
             select_columns
               (fold (\<lambda>c d. if c \<notin> set (columns d) then add_column c d else d) cols df) cols
         | None \<Rightarrow> \<lparr>columns = cols, rows = []\<rparr>)
      else \<lparr>columns = cols, rows = []\<rparr>)"

subsection \<open>The Google Sheets backend\<close>

text \<open>A worksheet is the list of its rows below the header row. The header row is the
  expected list of columns: \<^verbatim>\<open>get_or_create_ws\<close> writes or repairs it when the
  backend is set up.\<close>

type_synonym worksheet = "cell list list"

text \<open>\<^verbatim>\<open>ws.get_all_records()\<close> under the header \<open>hdr\<close>: one dict per row, keyed by
  the header.\<close>

definition get_all_records :: "string list \<Rightarrow> worksheet \<Rightarrow> pydict list" where
  "get_all_records hdr ws = map (\<lambda>r. map_of (zip hdr r)) ws"

text \<open>\<^verbatim>\<open>ws.append_row(values)\<close>.\<close>

definition append_row :: "cell list \<Rightarrow> worksheet \<Rightarrow> worksheet" where
  "append_row vs ws = ws @ [vs]"

datatype backend =
    Sheets worksheet worksheet
  | Csv csv_file csv_file

subsection \<open>Loading and writing\<close>

text \<open>The audit frame of \<^verbatim>\<open>load_data\<close> (its second result).\<close>

fun load_audit :: "backend \<Rightarrow> row list" where
  "load_audit (Sheets p_ws a_ws) = DataFrame (get_all_records AUDIT_COLUMNS a_ws) AUDIT_COLUMNS"
| "load_audit (Csv patients_path audit_path) = rows (load_csv audit_path AUDIT_COLUMNS)"



text \<open>\<^verbatim>\<open>_write_patients(df)\<close>. Sheets: \<^verbatim>\<open>ws.resize(rows=1)\<close> keeps the header only,
  then the cells are written as \<^verbatim>\<open>astype(str)\<close> gives them.\<close>

fun write_patients :: "row list \<Rightarrow> backend \<Rightarrow> backend" where
  "write_patients df (Sheets p_ws a_ws) =
     Sheets (if df \<noteq> [] then map (\<lambda>r. map (\<lambda>c. Str (py_str (at r c))) PATIENT_COLUMNS) df
             else []) a_ws"
| "write_patients df (Csv patients_path audit_path) =
     Csv (to_csv \<lparr>columns = PATIENT_COLUMNS, rows = df\<rparr>) audit_path"

text \<open>\<^verbatim>\<open>_append_audit(row)\<close>.\<close>

definition audit_values :: "pydict \<Rightarrow> cell list" where
  "audit_values row = map (\<lambda>c. dict_get row c (Str [])) AUDIT_COLUMNS"

fun append_audit :: "pydict \<Rightarrow> backend \<Rightarrow> backend" where
  "append_audit row (Sheets p_ws a_ws) = Sheets p_ws (append_row (audit_values row) a_ws)"
| "append_audit row (Csv patients_path audit_path) =
     (let df = load_csv audit_path AUDIT_COLUMNS;
          df = df\<lparr>rows := rows df @ [map_of (zip (columns df) (audit_values row))]\<rparr>
      in Csv patients_path (to_csv df))"

subsection \<open>The store: upsert and discharge\<close>

record state =
  p_df :: "row list"
  backend :: backend

text \<open>Lines 251 to 257 of \<^verbatim>\<open>upsert_patient\<close>: the copy of the record with its uid
  resolved, its time stamp set and every patient column present.\<close>

definition fill_columns :: "pydict \<Rightarrow> pydict" where
  "fill_columns rec = fold (\<lambda>c r. if r c = None then r(c \<mapsto> Str []) else r) PATIENT_COLUMNS rec"

definition resolve_record :: "string \<Rightarrow> string \<Rightarrow> pydict \<Rightarrow> pydict" where
  "resolve_record new_uid now record =
     (let rec = record;
          rec = (if \<not> truthy (rec ''uid'') then rec(''uid'' \<mapsto> Str new_uid) else rec);
          rec = rec(''Last Updated'' \<mapsto> Str now)
      in fill_columns rec)"

text \<open>The dict handed to \<^verbatim>\<open>_append_audit\<close>.\<close>

definition audit_event ::
  "string \<Rightarrow> string \<Rightarrow> string \<Rightarrow> string \<Rightarrow> cell \<Rightarrow> cell \<Rightarrow> string \<Rightarrow> pydict" where
  "audit_event ts role initials action uid name details =
     [''timestamp'' \<mapsto> Str ts, ''user_role'' \<mapsto> Str role, ''user_initials'' \<mapsto> Str initials,
      ''action'' \<mapsto> Str action, ''uid'' \<mapsto> uid, ''patient_name'' \<mapsto> name,
      ''details'' \<mapsto> Str details]"

text \<open>The patient table and the action of \<^verbatim>\<open>upsert_patient\<close> (lines 259 to 266).\<close>

definition upsert_rows :: "pydict \<Rightarrow> row list \<Rightarrow> row list \<times> string" where
  "upsert_rows rec df =
     (if df \<noteq> [] \<and> py_in (at rec ''uid'') (column ''uid'' df) then
        (let idx = first_index (\<lambda>u. py_eq u (at rec ''uid'')) (column ''uid'' df)
         in (df[idx := (df ! idx) ++ map_of (zip PATIENT_COLUMNS (map (at rec) PATIENT_COLUMNS))],
             ''update''))
      else (df @ DataFrame [rec] PATIENT_COLUMNS, ''create''))"

text \<open>\<^verbatim>\<open>upsert_patient(record, editor_role=..., editor_initials=...)\<close>; \<open>new_uid\<close> is
  what \<^verbatim>\<open>_new_uid()\<close> returns if called, \<open>now1\<close> and \<open>now2\<close> what the two calls
  of \<^verbatim>\<open>_now_iso()\<close> return.\<close>

definition upsert_patient ::
  "string \<Rightarrow> string \<Rightarrow> string \<Rightarrow> pydict \<Rightarrow> string \<Rightarrow> string \<Rightarrow> state \<Rightarrow> cell \<times> state" where
  "upsert_patient new_uid now1 now2 record editor_role editor_initials s =
     (let rec = resolve_record new_uid now1 record;
          (df, action) = upsert_rows rec (p_df s);
          b = write_patients df (backend s);
          b = append_audit
                (audit_event now2 editor_role editor_initials action (at rec ''uid'')
                   (dict_get rec ''Patient Name'' (Str [])) (action @ '' by '' @ editor_initials)) b
      in (at rec ''uid'', \<lparr>p_df = df, backend = b\<rparr>))"

text \<open>\<^verbatim>\<open>discharge_patient(uid, editor_role=..., editor_initials=...)\<close>.\<close>

definition discharge_patient ::
  "string \<Rightarrow> string \<Rightarrow> cell \<Rightarrow> string \<Rightarrow> string \<Rightarrow> state \<Rightarrow> bool \<times> state" where
  "discharge_patient now1 now2 uid editor_role editor_initials s =
     (if p_df s = [] \<or> \<not> py_in uid (column ''uid'' (p_df s)) then (False, s)
      else
        (let idx = first_index (\<lambda>u. py_eq u uid) (column ''uid'' (p_df s));
             df = (p_df s)[idx := (p_df s ! idx)(''Status'' \<mapsto> Str ''Discharged'')];
             df = df[idx := (df ! idx)(''Last Updated'' \<mapsto> Str now1)];
             b = write_patients df (backend s);
             b = append_audit
                   (audit_event now2 editor_role editor_initials ''discharge'' uid
                      (at (df ! idx) ''Patient Name'') (''discharged by '' @ editor_initials)) b
         in (True, \<lparr>p_df = df, backend = b\<rparr>)))"

text \<open>The uid an upsert resolves to: the uid of the input record if it is true, else the
  generated one.\<close>

definition resolved_uid :: "string \<Rightarrow> pydict \<Rightarrow> cell" where
  "resolved_uid new_uid record = (if truthy (record ''uid'') then at record ''uid'' else Str new_uid)"

text \<open>The record an upsert is to store, in closed form: under every patient column
  the value of the input record (the empty text where it has none), except the resolved
  uid and the time of the call.\<close>

definition stored_row :: "cell \<Rightarrow> string \<Rightarrow> pydict \<Rightarrow> row" where
  "stored_row uid now record =
     (\<lambda>c. if c \<in> set PATIENT_COLUMNS
          then Some (if c = ''uid'' then uid
                     else if c = ''Last Updated'' then Str now
                     else dict_get record c (Str []))
          else None)"



text \<open>The medium that holds the patients: a worksheet or a file.\<close>

datatype medium = Sheet worksheet | File csv_file

fun patients_medium :: "backend \<Rightarrow> medium" where
  "patients_medium (Sheets p_ws a_ws) = Sheet p_ws"
| "patients_medium (Csv patients_path audit_path) = File patients_path"


text \<open>An audit row as the next read of the rewritten audit file gives it.\<close>

definition reread :: "row \<Rightarrow> row" where
  "reread r = (\<lambda>c. if c \<in> set AUDIT_COLUMNS then Some (read_cell (at r c)) else None)"

text \<open>An audit file with the full header (every file the program writes has it), or no
  readable audit file, or a worksheet.\<close>

fun audit_header_ok :: "backend \<Rightarrow> bool" where
  "audit_header_ok (Csv patients_path (Table df)) = (set AUDIT_COLUMNS \<subseteq> set (columns df))"
| "audit_header_ok _ = True"

text \<open>Sequences of store operations, each with the answers of the clock and of the
  uid generator it consumes.\<close>

datatype op =
    Upsert string string string pydict string string
  | Discharge string string cell string string

fun apply_op :: "op \<Rightarrow> state \<Rightarrow> state" where
  "apply_op (Upsert new_uid now1 now2 record role initials) s =
     snd (upsert_patient new_uid now1 now2 record role initials s)"
| "apply_op (Discharge now1 now2 uid role initials) s =
     snd (discharge_patient now1 now2 uid role initials s)"

definition run :: "op list \<Rightarrow> state \<Rightarrow> state" where
  "run ops s = fold apply_op ops s"

subsection \<open>Strings\<close>

text \<open>\<^verbatim>\<open>str.isspace\<close> on the code points below 256: tab to carriage return, the four
  separators 28 to 31, the space, NEL (133) and the no-break space (160).\<close>

definition is_space :: "char \<Rightarrow> bool" where
  "is_space c =
     (let n = (of_char c :: nat)
      in (9 \<le> n \<and> n \<le> 13) \<or> (28 \<le> n \<and> n \<le> 32) \<or> n = 133 \<or> n = 160)"

text \<open>\<^verbatim>\<open>s.strip()\<close>.\<close>

definition strip :: "string \<Rightarrow> string" where
  "strip s = rev (dropWhile is_space (rev (dropWhile is_space s)))"

text \<open>\<^verbatim>\<open>s.startswith(p)\<close>.\<close>

definition startswith :: "string \<Rightarrow> string \<Rightarrow> bool" where
  "startswith s p = (take (length p) s = p)"

text \<open>The line boundaries of \<^verbatim>\<open>str.splitlines\<close> below 256: LF, VT, FF, CR (CR LF is
  one boundary), the separators 28 to 30 and NEL.\<close>

definition is_linebreak :: "char \<Rightarrow> bool" where
  "is_linebreak c =
     (let n = (of_char c :: nat) in (10 \<le> n \<and> n \<le> 13) \<or> (28 \<le> n \<and> n \<le> 30) \<or> n = 133)"

text \<open>\<open>splitlines_from cur s\<close>: the lines of \<open>s\<close> after the characters \<open>cur\<close>
  (latest first) of the line being read. No line is produced after a final boundary.\<close>

fun splitlines_from :: "string \<Rightarrow> string \<Rightarrow> string list" where
  "splitlines_from cur [] = (if cur = [] then [] else [rev cur])"
| "splitlines_from cur (c # cs) =
     (if c = CHR 0x0D then
        (case cs of
           [] \<Rightarrow> [rev cur]
         | d # ds \<Rightarrow>
             if d = CHR 0x0A then rev cur # splitlines_from [] ds
             else rev cur # splitlines_from [] (d # ds))
      else if is_linebreak c then rev cur # splitlines_from [] cs
      else splitlines_from (c # cur) cs)"

definition splitlines :: "string \<Rightarrow> string list" where
  "splitlines s = splitlines_from [] s"

subsection \<open>The save handler of the edit form\<close>

text \<open>The values of the widgets of the form when Save is pressed.\<close>

record edit_form =
  form_name :: string
  form_hosp :: string
  form_nhs :: string
  form_dob :: string
  form_ward :: string
  form_assigned :: string
  form_priority :: string
  form_status :: string
  form_pmhpshdh :: string
  form_reason :: string
  form_progress :: string
  form_jobs :: string

datatype save_result = Error_shown string | Saved cell

text \<open>Lines 436 to 457: \<open>rec\<close> is the record the form was filled from (the selected
  patient, or the blank record), \<open>now0\<close> the clock read for the dict \<^verbatim>\<open>new_rec\<close>.\<close>

definition new_rec :: "string \<Rightarrow> pydict \<Rightarrow> edit_form \<Rightarrow> pydict" where
  "new_rec now0 rec f =
     [''uid'' \<mapsto> dict_get rec ''uid'' (Str []),
      ''Patient Name'' \<mapsto> Str (strip (form_name f)),
      ''Hospital Number'' \<mapsto> Str (strip (form_hosp f)),
      ''NHS Number'' \<mapsto> Str (strip (form_nhs f)),
      ''Date of Birth'' \<mapsto> Str (strip (form_dob f)),
      ''Ward/Bed'' \<mapsto> Str (strip (form_ward f)),
      ''Reason for Admission'' \<mapsto> Str (strip (form_reason f)),
      ''PMH/PSH/DH'' \<mapsto> Str (strip (form_pmhpshdh f)),
      ''Progress'' \<mapsto> Str (strip (form_progress f)),
      ''Jobs'' \<mapsto> Str (strip (form_jobs f)),
      ''Priority'' \<mapsto> Str (form_priority f),
      ''Assigned To'' \<mapsto> Str (strip (form_assigned f)),
      ''Status'' \<mapsto> Str (form_status f),
      ''Last Updated'' \<mapsto> Str now0]"

definition edit_form_save ::
  "string \<Rightarrow> string \<Rightarrow> string \<Rightarrow> string \<Rightarrow> pydict \<Rightarrow> edit_form \<Rightarrow> string \<Rightarrow> string \<Rightarrow> state
     \<Rightarrow> save_result \<times> state" where
  "edit_form_save now0 new_uid now1 now2 rec f role initials s =
     (if strip (form_name f) = [] then (Error_shown ''Patient name is required.'', s)
      else
        (let (uid, s') =
               upsert_patient new_uid now1 now2 (new_rec now0 rec f) role
                 (if initials \<noteq> [] then initials else take 2 role) s
         in (Saved uid, s')))"

subsection \<open>The sort of the board view\<close>

text \<open>\<^verbatim>\<open>sort_values\<close> on several keys is a stable sort (pandas' lexsort); it is modelled
  by insertion from the right under the order of the keys.\<close>

fun insort_by :: "('a \<Rightarrow> 'a \<Rightarrow> bool) \<Rightarrow> 'a \<Rightarrow> 'a list \<Rightarrow> 'a list" where
  "insort_by le x [] = [x]"
| "insort_by le x (y # ys) = (if le x y then x # y # ys else y # insort_by le x ys)"

definition sort_by :: "('a \<Rightarrow> 'a \<Rightarrow> bool) \<Rightarrow> 'a list \<Rightarrow> 'a list" where
  "sort_by le xs = foldr (insort_by le) xs []"

definition priority_rank :: "string \<rightharpoonup> nat" where
  "priority_rank = [''High'' \<mapsto> 0, ''Medium'' \<mapsto> 1, ''Low'' \<mapsto> 2]"

text \<open>The helper column \<^verbatim>\<open>_prio\<close>; it is a sort key only and is not kept in the rows
  of the model.\<close>

definition prio :: "row \<Rightarrow> nat" where
  "prio r = dict_get priority_rank (py_str (at r ''Priority'')) 99"

text \<open>The order of two cells of \<^verbatim>\<open>Last Updated\<close> under \<^verbatim>\<open>ascending=False\<close>: the
  later instant first, a missing value last (\<^verbatim>\<open>na_position\<close> is \<^verbatim>\<open>last\<close>).
  \<open>instant\<close> gives the point in time a timestamp text denotes.\<close>

fun lu_le :: "(string \<Rightarrow> int) \<Rightarrow> cell \<Rightarrow> cell \<Rightarrow> bool" where
  "lu_le instant x NaN = True"
| "lu_le instant NaN (Str t) = False"
| "lu_le instant (Str s) (Str t) = (instant t \<le> instant s)"

definition row_le :: "(string \<Rightarrow> int) \<Rightarrow> row \<Rightarrow> row \<Rightarrow> bool" where
  "row_le instant a b =
     (prio a < prio b \<or>
      (prio a = prio b \<and> lu_le instant (at a ''Last Updated'') (at b ''Last Updated'')))"

text \<open>Lines 366 to 368.\<close>

definition view_sort :: "(string \<Rightarrow> int) \<Rightarrow> row list \<Rightarrow> row list" where
  "view_sort instant view_df = sort_by (row_le instant) view_df"

text \<open>Two rows tie when neither sort key tells them apart.\<close>

definition same_keys :: "(string \<Rightarrow> int) \<Rightarrow> row \<Rightarrow> row \<Rightarrow> bool" where
  "same_keys instant a b = (row_le instant a b \<and> row_le instant b a)"

subsection \<open>The pending jobs of the jobs tab\<close>

datatype py_error = AttributeError

text \<open>The body of the loop of \<^verbatim>\<open>parse_jobs\<close>.\<close>

definition parse_line :: "string \<Rightarrow> (string \<times> bool) list \<Rightarrow> (string \<times> bool) list" where
  "parse_line line items =
     (let line = strip line
      in if startswith line ''- [x]'' \<or> startswith line ''- [X]''
         then items @ [(strip (drop 5 line), True)]
         else if startswith line ''- [ ]'' then items @ [(strip (drop 5 line), False)]
         else items)"

text \<open>\<^verbatim>\<open>parse_jobs(jtxt)\<close>. A NaN is true, so \<^verbatim>\<open>(jtxt or "")\<close> is the NaN itself,
  a float, which has no \<^verbatim>\<open>splitlines\<close>.\<close>

fun parse_jobs :: "cell \<Rightarrow> py_error + (string \<times> bool) list" where
  "parse_jobs (Str jtxt) = Inr (fold parse_line (splitlines jtxt) [])"
| "parse_jobs NaN = Inl AttributeError"

text \<open>Lines 480 to 491: the rows appended to \<^verbatim>\<open>pending\<close> for one row of the view, and
  the loop over the view.\<close>

definition pending_entry :: "row \<Rightarrow> string \<Rightarrow> pydict" where
  "pending_entry r task =
     [''Patient'' \<mapsto> dict_get r ''Patient Name'' (Str []),
      ''Ward/Bed'' \<mapsto> dict_get r ''Ward/Bed'' (Str []),
      ''Priority'' \<mapsto> dict_get r ''Priority'' (Str []),
      ''Task'' \<mapsto> Str task,
      ''Assigned To'' \<mapsto> dict_get r ''Assigned To'' (Str []),
      ''Last Updated'' \<mapsto> dict_get r ''Last Updated'' (Str [])]"

definition pending_step :: "row \<Rightarrow> string \<times> bool \<Rightarrow> pydict list \<Rightarrow> pydict list" where
  "pending_step r item pending =
     (case item of (task, done) \<Rightarrow> if \<not> done then pending @ [pending_entry r task] else pending)"

fun pending_loop :: "row list \<Rightarrow> pydict list \<Rightarrow> py_error + pydict list" where
  "pending_loop [] pending = Inr pending"
| "pending_loop (r # view_df) pending =
     (case parse_jobs (dict_get r ''Jobs'' (Str [])) of
        Inl e \<Rightarrow> Inl e
      | Inr items \<Rightarrow> pending_loop view_df (fold (pending_step r) items pending))"

definition pending_jobs :: "row list \<Rightarrow> py_error + pydict list" where
  "pending_jobs view_df = pending_loop view_df []"

text \<open>The checklist in closed form: a line is an open item, or a done item, by the marker
  its stripped text starts with; the task is the stripped rest.\<close>

definition open_item :: "string \<Rightarrow> bool" where
  "open_item line = startswith (strip line) ''- [ ]''"

definition done_item :: "string \<Rightarrow> bool" where
  "done_item line = (startswith (strip line) ''- [x]'' \<or> startswith (strip line) ''- [X]'')"

definition task_of :: "string \<Rightarrow> string" where
  "task_of line = strip (drop 5 (strip line))"

subsection \<open>A sample store\<close>

text \<open>The store on the CSV backend before any file exists, and the sample store: the
  store after a first patient, Ann, is added to it.\<close>

definition empty_store :: state where
  "empty_store = \<lparr>p_df = [], backend = Csv Absent Absent\<rparr>"

definition ann_record :: pydict where
  "ann_record =
     [''Patient Name'' \<mapsto> Str ''Ann'', ''Priority'' \<mapsto> Str ''High'', ''Status'' \<mapsto> Str ''Active'']"

definition ann :: row where
  "ann = stored_row (Str ''u1'') ''2024-05-01T09:00:00'' ann_record"

definition sample :: state where
  "sample =
     snd (upsert_patient ''u1'' ''2024-05-01T09:00:00'' ''2024-05-01T09:00:01'' ann_record
            ''Doctor'' ''AB'' empty_store)"

text \<open>Two more patients, one with a checklist of three lines: an open item, a done item
  and a line of prose.\<close>

definition bob :: row where
  "bob = stored_row (Str ''u2'') ''2024-05-02T08:30:00''
           [''Patient Name'' \<mapsto> Str ''Bob'', ''Priority'' \<mapsto> Str ''Low'',
            ''Status'' \<mapsto> Str ''Active'',
            ''Jobs'' \<mapsto> Str (''- [ ] book CT'' @ [CHR 0x0A] @ ''  - [x] bloods'' @ [CHR 0x0D, CHR 0x0A]
                             @ ''review notes'')]"

definition cy :: row where
  "cy = stored_row (Str ''u3'') ''2024-05-03T08:30:00''
           [''Patient Name'' \<mapsto> Str ''Cy'', ''Priority'' \<mapsto> Str ''Medium'',
            ''Status'' \<mapsto> Str ''Active'']"

text \<open>A coarse reading of a time stamp: its year.\<close>

definition year :: "string \<Rightarrow> int" where
  "year s = foldl (\<lambda>n c. 10 * n + (int (of_char c) - 48)) 0 (take 4 s)"

text \<open>The record and the widgets of the edit form when \<^verbatim>\<open>New\<close> is selected (lines
  403 to 406).\<close>

definition blank_record :: pydict where
  "blank_record =
     (map_of (map (\<lambda>c. (c, Str [])) PATIENT_COLUMNS))
       (''uid'' \<mapsto> Str [], ''Priority'' \<mapsto> Str DEFAULT_PRIORITY, ''Status'' \<mapsto> Str DEFAULT_STATUS)"

definition blank_form :: edit_form where
  "blank_form =
     \<lparr>form_name = [], form_hosp = [], form_nhs = [], form_dob = [], form_ward = [],
      form_assigned = [], form_priority = DEFAULT_PRIORITY, form_status = DEFAULT_STATUS,
      form_pmhpshdh = [], form_reason = [], form_progress = [], form_jobs = []\<rparr>"


section \<open>Lemmas\<close>

subsection \<open>Lists and first positions\<close>

lemma first_index_less:
  "\<exists>x \<in> set xs. P x \<Longrightarrow> first_index P xs < length xs"
  by (induction xs) auto



lemma uid_index_less:
  "py_in uid (column ''uid'' df) \<Longrightarrow> first_index (\<lambda>u. py_eq u uid) (column ''uid'' df) < length df"
  using first_index_less [of "column ''uid'' df" "\<lambda>u. py_eq u uid"]
  by (simp add: py_in_def column_def)


lemma py_in_nonempty: "py_in uid (column c df) \<Longrightarrow> df \<noteq> []"
  by (auto simp: py_in_def column_def)



subsection \<open>The audit log under an append\<close>

lemma fold_add_column_columns:
  "set cols \<subseteq> set (columns df) \<Longrightarrow>
   fold (\<lambda>c d. if c \<notin> set (columns d) then add_column c d else d) cols df = df"
  by (induction cols arbitrary: df) auto

lemma columns_load_csv [simp]: "columns (load_csv f cols) = cols"
  by (simp add: load_csv_def select_columns_def split: option.splits)

lemma rows_load_csv_to_csv:
  "columns df = cols \<Longrightarrow> rows (load_csv (to_csv df) cols) =
     map (\<lambda>r c. if c \<in> set cols then Some (read_cell (at r c)) else None) (rows df)"
  by (auto simp: load_csv_def to_csv_def fold_add_column_columns select_columns_def
        restrict_map_def at_def fun_eq_iff)


lemma length_audit_values [simp]: "length (audit_values e) = length AUDIT_COLUMNS"
  by (simp add: audit_values_def)

lemma load_audit_append_csv:
  "load_audit (append_audit e (Csv pp ap)) =
     map reread (load_audit (Csv pp ap)) @ [reread (map_of (zip AUDIT_COLUMNS (audit_values e)))]"
  by (simp add: Let_def rows_load_csv_to_csv reread_def)

lemma load_audit_append_sheets:
  "load_audit (append_audit e (Sheets pw aw)) =
     load_audit (Sheets pw aw) @ DataFrame [map_of (zip AUDIT_COLUMNS (audit_values e))] AUDIT_COLUMNS"
  by (simp add: append_row_def get_all_records_def DataFrame_def)

lemma load_audit_write_patients [simp]:
  "load_audit (write_patients df b) = load_audit b"
  by (cases b) simp_all

lemma patients_medium_append_audit [simp]:
  "patients_medium (append_audit e b) = patients_medium b"
  by (cases b) (simp_all add: Let_def)

lemma length_load_audit_append [simp]:
  "length (load_audit (append_audit e b)) = Suc (length (load_audit b))"
  by (cases b) (simp_all add: load_audit_append_csv load_audit_append_sheets DataFrame_def del: append_audit.simps load_audit.simps)


lemma read_cell_idem [simp]: "read_cell (read_cell v) = read_cell v"
  by (cases v) auto

lemma at_reread: "c \<in> set AUDIT_COLUMNS \<Longrightarrow> at (reread r) c = read_cell (at r c)"
  by (simp add: reread_def at_def)







lemma audit_header_ok_file: "audit_header_ok (Csv pp ap) = audit_header_ok (Csv pp' ap)"
  by (cases ap) simp_all

lemma audit_header_ok_write [simp]:
  "audit_header_ok (write_patients df b) = audit_header_ok b"
  by (cases b) (simp_all add: audit_header_ok_file [of "to_csv _"])

lemma audit_header_ok_append [simp]: "audit_header_ok (append_audit e b)"
  by (cases b) (simp_all add: Let_def to_csv_def)

lemma apply_op_backend:
  "apply_op x s = s \<or> (\<exists>e df. backend (apply_op x s) = append_audit e (write_patients df (backend s)))"
proof (cases x)
  case (Upsert new_uid now1 now2 rcd role initials)
  show ?thesis
    by (auto simp: Upsert upsert_patient_def Let_def split: prod.splits)
next
  case (Discharge now1 now2 uid role initials)
  show ?thesis
    by (auto simp: Discharge discharge_patient_def Let_def)
qed

lemma apply_op_header_ok:
  "audit_header_ok (backend s) \<Longrightarrow> audit_header_ok (backend (apply_op x s))"
  using apply_op_backend [of x s] by auto


lemma run_header_ok:
  "audit_header_ok (backend s) \<Longrightarrow> audit_header_ok (backend (run ops s))"
  unfolding run_def by (induction ops arbitrary: s) (auto simp: apply_op_header_ok)




subsection \<open>The record an upsert stores\<close>

lemma fold_fill:
  "fold (\<lambda>c r. if r c = None then r(c \<mapsto> d) else r) cols rec k =
     (if k \<in> set cols then Some (dict_get rec k d) else rec k)"
  by (induction cols arbitrary: rec) (auto simp: dict_get_def)

lemma fill_columns_apply:
  "fill_columns rec k = (if k \<in> set PATIENT_COLUMNS then Some (dict_get rec k (Str [])) else rec k)"
  unfolding fill_columns_def by (rule fold_fill)

lemma truthy_at: "truthy (rcd k) \<Longrightarrow> rcd k = Some (at rcd k)"
  by (cases "rcd k") (simp_all add: at_def)

lemma uid_in_columns: "''uid'' \<in> set PATIENT_COLUMNS"
  by (simp add: PATIENT_COLUMNS_def)


lemma resolve_record_apply:
  "k \<in> set PATIENT_COLUMNS \<Longrightarrow>
   resolve_record new_uid now rcd k = stored_row (resolved_uid new_uid rcd) now rcd k"
  using truthy_at [of rcd "''uid''"]
  by (auto simp: resolve_record_def Let_def fill_columns_apply stored_row_def resolved_uid_def
        dict_get_def)

lemma at_resolve_uid:
  "at (resolve_record new_uid now rcd) ''uid'' = resolved_uid new_uid rcd"
  using resolve_record_apply [OF uid_in_columns, of new_uid now rcd]
  by (simp add: at_def stored_row_def uid_in_columns)

lemma row_of_resolved:
  "map_of (zip PATIENT_COLUMNS (map (at (resolve_record new_uid now rcd)) PATIENT_COLUMNS)) =
     stored_row (resolved_uid new_uid rcd) now rcd"
proof
  fix k
  show "map_of (zip PATIENT_COLUMNS (map (at (resolve_record new_uid now rcd)) PATIENT_COLUMNS)) k =
     stored_row (resolved_uid new_uid rcd) now rcd k"
  proof (cases "k \<in> set PATIENT_COLUMNS")
    case True
    then show ?thesis
      using resolve_record_apply [OF True, of new_uid now rcd]
      by (simp add: map_of_zip_map at_def stored_row_def)
  next
    case False
    then show ?thesis by (simp add: map_of_zip_map stored_row_def)
  qed
qed

lemma frame_of_resolved:
  "DataFrame [resolve_record new_uid now rcd] PATIENT_COLUMNS =
     [stored_row (resolved_uid new_uid rcd) now rcd]"
proof -
  have "(\<lambda>c. if c \<in> set PATIENT_COLUMNS
            then Some (dict_get (resolve_record new_uid now rcd) c NaN) else None) =
        stored_row (resolved_uid new_uid rcd) now rcd"
  proof
    fix k
    show "(if k \<in> set PATIENT_COLUMNS
            then Some (dict_get (resolve_record new_uid now rcd) k NaN) else None) =
        stored_row (resolved_uid new_uid rcd) now rcd k"
      using resolve_record_apply [of k new_uid now rcd]
      by (auto simp: dict_get_def stored_row_def)
  qed
  then show ?thesis by (simp add: DataFrame_def)
qed

lemma upsert_rows_present:
  "py_in (resolved_uid new_uid rcd) (column ''uid'' df) \<Longrightarrow>
   upsert_rows (resolve_record new_uid now rcd) df =
     (df[first_index (\<lambda>u. py_eq u (resolved_uid new_uid rcd)) (column ''uid'' df) :=
           (df ! first_index (\<lambda>u. py_eq u (resolved_uid new_uid rcd)) (column ''uid'' df)) ++
             stored_row (resolved_uid new_uid rcd) now rcd],
      ''update'')"
  using py_in_nonempty [of "resolved_uid new_uid rcd" "''uid''" df]
  by (simp add: upsert_rows_def Let_def at_resolve_uid row_of_resolved)

lemma upsert_rows_absent:
  "\<not> py_in (resolved_uid new_uid rcd) (column ''uid'' df) \<Longrightarrow>
   upsert_rows (resolve_record new_uid now rcd) df =
     (df @ [stored_row (resolved_uid new_uid rcd) now rcd], ''create'')"
  by (simp add: upsert_rows_def at_resolve_uid frame_of_resolved)

lemma upsert_patient_eq:
  "upsert_patient new_uid now1 now2 rcd role initials s =
     (resolved_uid new_uid rcd,
      \<lparr>p_df = fst (upsert_rows (resolve_record new_uid now1 rcd) (p_df s)),
       backend = append_audit
          (audit_event now2 role initials
             (snd (upsert_rows (resolve_record new_uid now1 rcd) (p_df s)))
             (resolved_uid new_uid rcd)
             (dict_get (resolve_record new_uid now1 rcd) ''Patient Name'' (Str []))
             (snd (upsert_rows (resolve_record new_uid now1 rcd) (p_df s)) @ '' by '' @ initials))
          (write_patients (fst (upsert_rows (resolve_record new_uid now1 rcd) (p_df s)))
             (backend s))\<rparr>)"
  by (simp add: upsert_patient_def Let_def at_resolve_uid split: prod.splits)

subsection \<open>One record per uid\<close>









lemma at_stored_row_uid: "at (stored_row u now rcd) ''uid'' = u"
  by (simp add: at_def stored_row_def uid_in_columns)




lemma p_df_upsert:
  "p_df (snd (upsert_patient new_uid now1 now2 rcd role initials s)) =
     fst (upsert_rows (resolve_record new_uid now1 rcd) (p_df s))"
  by (simp add: upsert_patient_eq)





subsection \<open>The audit event and the two cases of an upsert\<close>

lemma map_of_audit_values:
  "map_of (zip AUDIT_COLUMNS (audit_values e)) =
     (\<lambda>c. if c \<in> set AUDIT_COLUMNS then Some (dict_get e c (Str [])) else None)"
  by (simp add: audit_values_def map_of_zip_map)

lemma action_in_columns: "''action'' \<in> set AUDIT_COLUMNS"
  by (simp add: AUDIT_COLUMNS_def)

lemma audit_event_action:
  "dict_get (audit_event ts role ini action uid nm details) ''action'' d = Str action"
  by (simp add: audit_event_def dict_get_def)

lemma dict_get_if:
  "dict_get (\<lambda>c. if c \<in> S then Some (f c) else None) k d = (if k \<in> S then f k else d)"
  by (simp add: dict_get_def)

lemma at_if: "at (\<lambda>c. if c \<in> S then Some (f c) else None) k = (if k \<in> S then f k else NaN)"
  by (simp add: at_def)

lemma last_audit_action:
  assumes "action \<notin> set na_values"
  shows "at (last (load_audit (append_audit (audit_event ts role ini action uid nm details) b)))
           ''action'' = Str action"
proof (cases b)
  case (Sheets pw aw)
  show ?thesis
    unfolding Sheets load_audit_append_sheets
    by (simp add: DataFrame_def map_of_audit_values action_in_columns audit_event_action
          at_if dict_get_if)
next
  case (Csv pp ap)
  show ?thesis
    unfolding Csv load_audit_append_csv
    using assms
    by (simp add: at_reread action_in_columns map_of_audit_values audit_event_action at_if)
qed

lemma create_not_na: "''create'' \<notin> set na_values"
  by (simp add: na_values_def)



lemma resolved_uid_given: "truthy (rcd ''uid'') \<Longrightarrow> resolved_uid new_uid rcd = at rcd ''uid''"
  by (simp add: resolved_uid_def)


lemma upsert_absent:
  assumes "\<not> py_in (resolved_uid new_uid rcd) (column ''uid'' (p_df s))"
    and "upsert_patient new_uid now1 now2 rcd role initials s = (uid', s')"
  shows "uid' = resolved_uid new_uid rcd"
    and "p_df s' = p_df s @ [stored_row (resolved_uid new_uid rcd) now1 rcd]"
    and "at (last (load_audit (backend s'))) ''action'' = Str ''create''"
    and "length (load_audit (backend s')) = length (load_audit (backend s)) + 1"
  using assms(2) last_audit_action [OF create_not_na]
  by (auto simp: upsert_patient_eq upsert_rows_absent [OF assms(1)])






lemma at_ann_uid: "at ann ''uid'' = Str ''u1''"
  by (simp add: ann_def at_stored_row_uid)

lemma resolved_uid_ann: "resolved_uid ''u1'' ann_record = Str ''u1''"
  by (simp add: resolved_uid_def ann_record_def)

lemma upsert_rows_ann:
  "upsert_rows (resolve_record ''u1'' ''2024-05-01T09:00:00'' ann_record) [] = ([ann], ''create'')"
  by (simp add: upsert_rows_absent resolved_uid_ann py_in_def column_def ann_def)

lemma p_df_sample: "p_df sample = [ann]"
  by (simp add: sample_def p_df_upsert empty_store_def upsert_rows_ann)

lemma column_sample: "column ''uid'' (p_df sample) = [Str ''u1'']"
  by (simp add: p_df_sample column_def at_ann_uid)

lemma length_audit_sample: "length (load_audit (backend sample)) = 1"
  by (simp add: sample_def upsert_patient_eq empty_store_def load_csv_def
        del: append_audit.simps write_patients.simps)


lemma patients_medium_write_file:
  "patients_medium b = File f \<Longrightarrow>
   patients_medium (write_patients df b) = File (to_csv \<lparr>columns = PATIENT_COLUMNS, rows = df\<rparr>)"
  by (cases b) simp_all

lemma patients_medium_sample:
  "patients_medium (backend sample) = File (to_csv \<lparr>columns = PATIENT_COLUMNS, rows = [ann]\<rparr>)"
  by (simp add: sample_def upsert_patient_eq empty_store_def upsert_rows_ann
        del: append_audit.simps)


subsection \<open>Stable sorting under an order of keys\<close>

lemma set_insort_by: "set (insort_by le x xs) = insert x (set xs)"
  by (induction xs) auto

lemma mset_insort_by: "mset (insort_by le x xs) = add_mset x (mset xs)"
  by (induction xs) auto

lemma mset_sort_by: "mset (sort_by le xs) = mset xs"
  unfolding sort_by_def by (induction xs) (simp_all add: mset_insort_by)

lemma sorted_insort_by:
  assumes total: "\<And>a b. le a b \<or> le b a"
    and trans: "\<And>a b c. le a b \<Longrightarrow> le b c \<Longrightarrow> le a c"
  shows "sorted_wrt le xs \<Longrightarrow> sorted_wrt le (insort_by le x xs)"
proof (induction xs)
  case Nil
  show ?case by simp
next
  case (Cons y ys)
  show ?case
  proof (cases "le x y")
    case True
    with Cons.prems trans show ?thesis by auto
  next
    case False
    with total have "le y x" by blast
    with Cons False show ?thesis by (auto simp: set_insort_by)
  qed
qed

lemma sorted_sort_by:
  assumes "\<And>a b. le a b \<or> le b a"
    and "\<And>a b c. le a b \<Longrightarrow> le b c \<Longrightarrow> le a c"
  shows "sorted_wrt le (sort_by le xs)"
  unfolding sort_by_def
  by (induction xs) (simp_all add: sorted_insort_by [of le, OF assms])

lemma filter_insort_by:
  "(\<And>y. P y \<Longrightarrow> le x y) \<Longrightarrow> P x \<Longrightarrow> filter P (insort_by le x xs) = x # filter P xs"
  by (induction xs) auto

lemma filter_insort_by_other:
  "\<not> P x \<Longrightarrow> filter P (insort_by le x xs) = filter P xs"
  by (induction xs) auto

lemma filter_sort_by:
  assumes "\<And>x y. P x \<Longrightarrow> P y \<Longrightarrow> le x y"
  shows "filter P (sort_by le xs) = filter P xs"
  unfolding sort_by_def
proof (induction xs)
  case Nil
  show ?case by simp
next
  case (Cons x xs)
  show ?case
  proof (cases "P x")
    case True
    with assms have "filter P (insort_by le x (foldr (insort_by le) xs [])) =
        x # filter P (foldr (insort_by le) xs [])"
      by (intro filter_insort_by) auto
    with True Cons show ?thesis by simp
  next
    case False
    with Cons show ?thesis by (simp add: filter_insort_by_other)
  qed
qed

lemma lu_le_total: "lu_le i x y \<or> lu_le i y x"
  by (cases x; cases y) auto

lemma lu_le_trans: "lu_le i x y \<Longrightarrow> lu_le i y z \<Longrightarrow> lu_le i x z"
  by (cases x; cases y; cases z) auto

lemma row_le_total: "row_le i a b \<or> row_le i b a"
  using lu_le_total [of i "at a ''Last Updated''" "at b ''Last Updated''"]
  by (auto simp: row_le_def)

lemma row_le_trans: "row_le i a b \<Longrightarrow> row_le i b c \<Longrightarrow> row_le i a c"
  using lu_le_trans [of i "at a ''Last Updated''" "at b ''Last Updated''" "at c ''Last Updated''"]
  by (auto simp: row_le_def)

lemma prio_cases:
  "prio r = (let p = py_str (at r ''Priority'')
             in if p = ''High'' then 0 else if p = ''Medium'' then 1
                else if p = ''Low'' then 2 else 99)"
  by (simp add: prio_def priority_rank_def dict_get_def Let_def)


subsection \<open>The checklist as a filter of the lines\<close>

lemma open_not_done: "open_item l \<Longrightarrow> \<not> done_item l"
  by (auto simp: open_item_def done_item_def startswith_def)

lemma fold_parse_line:
  "fold parse_line ls items =
     items @ map (\<lambda>l. (task_of l, done_item l)) (filter (\<lambda>l. done_item l \<or> open_item l) ls)"
proof (induction ls arbitrary: items)
  case Nil
  show ?case by simp
next
  case (Cons l ls)
  have step: "parse_line l items =
      (if done_item l \<or> open_item l then items @ [(task_of l, done_item l)] else items)"
    using open_not_done [of l]
    by (auto simp: parse_line_def Let_def done_item_def open_item_def task_of_def)
  show ?case by (simp add: Cons.IH step)
qed

lemma fold_pending_step:
  "fold (pending_step r) items pending =
     pending @ map (\<lambda>i. pending_entry r (fst i)) (filter (\<lambda>i. \<not> snd i) items)"
  by (induction items arbitrary: pending) (auto simp: pending_step_def split: prod.splits)

lemma pending_loop_text:
  "\<forall>r \<in> set view_df. \<exists>t. dict_get r ''Jobs'' (Str []) = Str t \<Longrightarrow>
   pending_loop view_df pending =
     Inr (pending @ concat (map (\<lambda>r. map (\<lambda>l. pending_entry r (task_of l))
            (filter open_item (splitlines (py_str (dict_get r ''Jobs'' (Str [])))))) view_df))"
proof (induction view_df arbitrary: pending)
  case Nil
  show ?case by simp
next
  case (Cons r view_df)
  from Cons.prems obtain t where t: "dict_get r ''Jobs'' (Str []) = Str t" by auto
  have flt: "filter (\<lambda>i. \<not> snd i) (map (\<lambda>l. (task_of l, done_item l)) (filter (\<lambda>l. done_item l \<or> open_item l) ls))
        = map (\<lambda>l. (task_of l, done_item l)) (filter open_item ls)" for ls
    using open_not_done by (induction ls) auto
  show ?case
    using Cons.prems by (simp add: t Cons.IH fold_parse_line fold_pending_step flt comp_def)
qed


subsection \<open>Loading a table of the CSV backend\<close>





lemma priority_in_columns: "''Priority'' \<in> set PATIENT_COLUMNS"
  by (simp add: PATIENT_COLUMNS_def)


subsection \<open>The sample patients\<close>

lemma jobs_in_columns: "''Jobs'' \<in> set PATIENT_COLUMNS"
  by (simp add: PATIENT_COLUMNS_def)

lemma bob_jobs:
  "dict_get bob ''Jobs'' (Str []) =
     Str (''- [ ] book CT'' @ [CHR 0x0A] @ ''  - [x] bloods'' @ [CHR 0x0D, CHR 0x0A] @ ''review notes'')"
  by (simp add: bob_def stored_row_def jobs_in_columns dict_get_def)

lemma bob_lines:
  "splitlines (''- [ ] book CT'' @ [CHR 0x0A] @ ''  - [x] bloods'' @ [CHR 0x0D, CHR 0x0A] @ ''review notes'')
     = [''- [ ] book CT'', ''  - [x] bloods'', ''review notes'']"
  by (simp add: splitlines_def is_linebreak_def)

lemma bob_open:
  "filter open_item [''- [ ] book CT'', ''  - [x] bloods'', ''review notes''] = [''- [ ] book CT'']"
  by (simp add: open_item_def strip_def startswith_def is_space_def)

lemma bob_task: "task_of ''- [ ] book CT'' = ''book CT''"
  by (simp add: task_of_def strip_def is_space_def)

lemma priority_stored:
  "at (stored_row u now rcd) ''Priority'' = dict_get rcd ''Priority'' (Str [])"
  by (simp add: at_def stored_row_def priority_in_columns)

lemma prio_ann: "prio ann = 0"
  by (simp add: prio_cases ann_def ann_record_def priority_stored dict_get_def)

lemma prio_bob: "prio bob = 2"
  by (simp add: prio_cases bob_def priority_stored dict_get_def)

lemma prio_cy: "prio cy = 1"
  by (simp add: prio_cases cy_def priority_stored dict_get_def)

subsection \<open>The name an upsert stores\<close>

lemma name_in_columns: "''Patient Name'' \<in> set PATIENT_COLUMNS"
  by (simp add: PATIENT_COLUMNS_def)

lemma name_stored:
  "at (r ++ stored_row u now rcd) ''Patient Name'' = dict_get rcd ''Patient Name'' (Str [])"
  by (simp add: at_def stored_row_def name_in_columns map_add_def)

lemma upsert_stores_name:
  "\<exists>r \<in> set (p_df (snd (upsert_patient new_uid now1 now2 rcd role initials s))).
      at r ''Patient Name'' = dict_get rcd ''Patient Name'' (Str [])"
proof (cases "py_in (resolved_uid new_uid rcd) (column ''uid'' (p_df s))")
  case True
  let ?i = "first_index (\<lambda>u. py_eq u (resolved_uid new_uid rcd)) (column ''uid'' (p_df s))"
  have lt: "?i < length (p_df s)" by (rule uid_index_less [OF True])
  have "(p_df s ! ?i) ++ stored_row (resolved_uid new_uid rcd) now1 rcd
          \<in> set (p_df (snd (upsert_patient new_uid now1 now2 rcd role initials s)))"
    using lt by (simp add: p_df_upsert upsert_rows_present [OF True] set_update_memI)
  then show ?thesis using name_stored by blast
next
  case False
  have "Map.empty ++ stored_row (resolved_uid new_uid rcd) now1 rcd
          \<in> set (p_df (snd (upsert_patient new_uid now1 now2 rcd role initials s)))"
    by (simp add: p_df_upsert upsert_rows_absent [OF False])
  then show ?thesis using name_stored by blast
qed

lemma new_rec_name: "dict_get (new_rec now0 rec f) ''Patient Name'' d = Str (strip (form_name f))"
  by (simp add: new_rec_def dict_get_def)

lemma strip_spaces: "strip ''  '' = []"
  by (simp add: strip_def is_space_def)

lemma strip_dee: "strip ''Dee '' = ''Dee''"
  by (simp add: strip_def is_space_def)

lemma new_rec_blank_uid: "resolved_uid new_uid (new_rec now0 blank_record f) = Str new_uid"
  by (simp add: resolved_uid_def new_rec_def blank_record_def dict_get_def)

section \<open>The claims\<close>

subsection \<open>Upsert\<close>



text \<open>
  Claim C10. A record whose uid is not empty and is the uid of no record of the table is
  created under that very uid (none is generated): it is appended at the end of the
  table, and the audit event says \<^verbatim>\<open>create\<close>.
\<close>

theorem upsert_unknown_uid_creates:
  assumes "truthy (rcd ''uid'')"
    and "\<not> py_in (at rcd ''uid'') (column ''uid'' (p_df s))"
    and "upsert_patient new_uid now1 now2 rcd role initials s = (uid', s')"
  shows "uid' = at rcd ''uid'' \<and>
         p_df s' = p_df s @ [stored_row (at rcd ''uid'') now1 rcd] \<and>
         at (last (p_df s')) ''uid'' = at rcd ''uid'' \<and>
         length (load_audit (backend s')) = length (load_audit (backend s)) + 1 \<and>
         at (last (load_audit (backend s'))) ''action'' = Str ''create''"
proof -
  from assms(1) have u: "resolved_uid new_uid rcd = at rcd ''uid''" by (rule resolved_uid_given)
  with assms(2) have n: "\<not> py_in (resolved_uid new_uid rcd) (column ''uid'' (p_df s))" by simp
  note r = upsert_absent [OF n assms(3)]
  have "at (last (p_df s')) ''uid'' = at rcd ''uid''"
    using r(2) u by (simp add: at_stored_row_uid)
  with r u show ?thesis by simp
qed

text \<open>The theorem at the sample store, for a record that brings the uid
  \<^verbatim>\<open>legacy-7\<close>.\<close>

theorem upsert_unknown_uid_creates_witness:
  "truthy ([''uid'' \<mapsto> Str ''legacy-7'', ''Patient Name'' \<mapsto> Str ''Cy''] ''uid'') \<and>
   \<not> py_in (at [''uid'' \<mapsto> Str ''legacy-7'', ''Patient Name'' \<mapsto> Str ''Cy''] ''uid'')
       (column ''uid'' (p_df sample)) \<and>
   fst (upsert_patient ''u2'' ''t1'' ''t2'' [''uid'' \<mapsto> Str ''legacy-7'', ''Patient Name'' \<mapsto> Str ''Cy'']
          ''Doctor'' ''AB'' sample) =
     at [''uid'' \<mapsto> Str ''legacy-7'', ''Patient Name'' \<mapsto> Str ''Cy''] ''uid'' \<and>
   at (last (p_df (snd (upsert_patient ''u2'' ''t1'' ''t2''
         [''uid'' \<mapsto> Str ''legacy-7'', ''Patient Name'' \<mapsto> Str ''Cy''] ''Doctor'' ''AB'' sample)))) ''uid'' =
     at [''uid'' \<mapsto> Str ''legacy-7'', ''Patient Name'' \<mapsto> Str ''Cy''] ''uid'' \<and>
   at (last (load_audit (backend (snd (upsert_patient ''u2'' ''t1'' ''t2''
         [''uid'' \<mapsto> Str ''legacy-7'', ''Patient Name'' \<mapsto> Str ''Cy''] ''Doctor'' ''AB'' sample)))))
      ''action'' = Str ''create''"
proof -
  have a: "truthy ([''uid'' \<mapsto> Str ''legacy-7'', ''Patient Name'' \<mapsto> Str ''Cy''] ''uid'')"
    by simp
  have b: "\<not> py_in (at [''uid'' \<mapsto> Str ''legacy-7'', ''Patient Name'' \<mapsto> Str ''Cy''] ''uid'')
       (column ''uid'' (p_df sample))"
    by (simp add: column_sample py_in_def at_def)
  from a b upsert_unknown_uid_creates [OF a b surjective_pairing]
  show ?thesis by blast
qed



subsection \<open>Discharge\<close>

text \<open>
  Claim C6. For a uid that no record of the table has, \<^verbatim>\<open>discharge_patient\<close>
  returns False (it raises nothing) and leaves the whole state as it was: the table,
  the patients medium and the audit log.
\<close>

theorem discharge_unknown_uid:
  assumes "\<not> py_in uid (column ''uid'' (p_df s))"
  shows "discharge_patient now1 now2 uid role initials s = (False, s)"
  using assms by (simp add: discharge_patient_def)

text \<open>The theorem at the sample store, for the unknown uid \<^verbatim>\<open>u9\<close>.\<close>

theorem discharge_unknown_uid_witness:
  "\<not> py_in (Str ''u9'') (column ''uid'' (p_df sample)) \<and>
   discharge_patient ''t1'' ''t2'' (Str ''u9'') ''Nurse'' ''CD'' sample = (False, sample)"
proof -
  have a: "\<not> py_in (Str ''u9'') (column ''uid'' (p_df sample))"
    by (simp add: column_sample py_in_def)
  from a discharge_unknown_uid [OF a] show ?thesis by blast
qed



subsection \<open>The audit log\<close>



subsection \<open>Loading\<close>




subsection \<open>The save handler\<close>

text \<open>
  Claim C2, as the code has it. The check of the name is made by the save handler of the
  edit form, on the stripped name: when the name is empty or blank the handler shows the
  error \<^verbatim>\<open>Patient name is required.\<close> and nothing is stored or audited; when it is
  not, the record is handed to \<^verbatim>\<open>upsert_patient\<close> and stored under the stripped
  name, with one audit event, whatever the other widgets hold.
  \<^verbatim>\<open>upsert_patient\<close> itself checks nothing: it stores the record, and appends the
  audit event, under whatever name the record has.
\<close>

theorem save_requires_name:
  assumes "U = upsert_patient new_uid now1 now2 (new_rec now0 rec f) role
                 (if initials \<noteq> [] then initials else take 2 role) s"
  shows "(strip (form_name f) = [] \<longrightarrow>
            edit_form_save now0 new_uid now1 now2 rec f role initials s =
              (Error_shown ''Patient name is required.'', s)) \<and>
         (strip (form_name f) \<noteq> [] \<longrightarrow>
            edit_form_save now0 new_uid now1 now2 rec f role initials s = (Saved (fst U), snd U) \<and>
            (\<exists>r \<in> set (p_df (snd U)). at r ''Patient Name'' = Str (strip (form_name f))) \<and>
            length (load_audit (backend (snd U))) = length (load_audit (backend s)) + 1) \<and>
         (\<exists>r \<in> set (p_df (snd (upsert_patient new_uid now1 now2 rcd role initials s))).
            at r ''Patient Name'' = dict_get rcd ''Patient Name'' (Str [])) \<and>
         length (load_audit (backend (snd (upsert_patient new_uid now1 now2 rcd role initials s)))) =
           length (load_audit (backend s)) + 1"
proof (intro conjI impI)
  assume "strip (form_name f) = []"
  then show "edit_form_save now0 new_uid now1 now2 rec f role initials s =
      (Error_shown ''Patient name is required.'', s)"
    by (simp add: edit_form_save_def)
next
  assume n: "strip (form_name f) \<noteq> []"
  then show "edit_form_save now0 new_uid now1 now2 rec f role initials s = (Saved (fst U), snd U)"
    by (simp add: edit_form_save_def assms split: prod.splits)
  show "\<exists>r \<in> set (p_df (snd U)). at r ''Patient Name'' = Str (strip (form_name f))"
    unfolding assms
    using upsert_stores_name [of new_uid now1 now2 "new_rec now0 rec f" role _ s]
    by (simp add: new_rec_name)
  show "length (load_audit (backend (snd U))) = length (load_audit (backend s)) + 1"
    by (simp add: assms upsert_patient_eq)
next
  show "\<exists>r \<in> set (p_df (snd (upsert_patient new_uid now1 now2 rcd role initials s))).
            at r ''Patient Name'' = dict_get rcd ''Patient Name'' (Str [])"
    by (rule upsert_stores_name)
  show "length (load_audit (backend (snd (upsert_patient new_uid now1 now2 rcd role initials s)))) =
           length (load_audit (backend s)) + 1"
    by (simp add: upsert_patient_eq)
qed

text \<open>The theorem at the sample store, for the blank form with the name of two spaces and
  with the name \<^verbatim>\<open>Dee\<close>.\<close>

theorem save_requires_name_witness:
  "strip (form_name (blank_form\<lparr>form_name := ''  ''\<rparr>)) = [] \<and>
   edit_form_save ''t0'' ''u2'' ''t1'' ''t2'' blank_record (blank_form\<lparr>form_name := ''  ''\<rparr>)
      ''Doctor'' ''AB'' sample = (Error_shown ''Patient name is required.'', sample) \<and>
   strip (form_name (blank_form\<lparr>form_name := ''Dee ''\<rparr>)) \<noteq> [] \<and>
   fst (edit_form_save ''t0'' ''u2'' ''t1'' ''t2'' blank_record (blank_form\<lparr>form_name := ''Dee ''\<rparr>)
      ''Doctor'' ''AB'' sample) = Saved (Str ''u2'')"
proof -
  have a: "strip (form_name (blank_form\<lparr>form_name := ''  ''\<rparr>)) = []"
    by (simp add: strip_spaces)
  have b: "strip (form_name (blank_form\<lparr>form_name := ''Dee ''\<rparr>)) \<noteq> []"
    by (simp add: strip_dee)
  note t1 = save_requires_name [OF refl, where f = "blank_form\<lparr>form_name := ''  ''\<rparr>"
      and ?now0.0 = "''t0''" and new_uid = "''u2''" and ?now1.0 = "''t1''" and ?now2.0 = "''t2''"
      and rec = blank_record and role = "''Doctor''" and initials = "''AB''" and s = sample
      and rcd = blank_record]
  note t2 = save_requires_name [OF refl, where f = "blank_form\<lparr>form_name := ''Dee ''\<rparr>"
      and ?now0.0 = "''t0''" and new_uid = "''u2''" and ?now1.0 = "''t1''" and ?now2.0 = "''t2''"
      and rec = blank_record and role = "''Doctor''" and initials = "''AB''" and s = sample
      and rcd = blank_record]
  have c: "edit_form_save ''t0'' ''u2'' ''t1'' ''t2'' blank_record (blank_form\<lparr>form_name := ''  ''\<rparr>)
      ''Doctor'' ''AB'' sample = (Error_shown ''Patient name is required.'', sample)"
    using t1 [THEN conjunct1] a by (rule mp)
  have "fst (edit_form_save ''t0'' ''u2'' ''t1'' ''t2'' blank_record
      (blank_form\<lparr>form_name := ''Dee ''\<rparr>) ''Doctor'' ''AB'' sample) =
      Saved (fst (upsert_patient ''u2'' ''t1'' ''t2''
                    (new_rec ''t0'' blank_record (blank_form\<lparr>form_name := ''Dee ''\<rparr>)) ''Doctor''
                    (if ''AB'' \<noteq> [] then ''AB'' else take 2 ''Doctor'') sample))"
    using t2 [THEN conjunct2, THEN conjunct1, THEN mp, OF b, THEN conjunct1] by (rule arg_cong [where f = fst, THEN trans]) (rule fst_conv)
  then have d: "fst (edit_form_save ''t0'' ''u2'' ''t1'' ''t2'' blank_record
      (blank_form\<lparr>form_name := ''Dee ''\<rparr>) ''Doctor'' ''AB'' sample) = Saved (Str ''u2'')"
    by (simp only: upsert_patient_eq fst_conv new_rec_blank_uid)
  from a c b d show ?thesis by (intro conjI)
qed

text \<open>The claim as the specification words it fails for a direct call: the record with the
  empty name is stored as a second record, written to the patients file and audited.\<close>

theorem upsert_empty_name_counterexample:
  "fst (upsert_patient ''u2'' ''t1'' ''t2'' [''Patient Name'' \<mapsto> Str []] ''Doctor'' ''AB'' sample) =
     Str ''u2'' \<and>
   length (p_df (snd (upsert_patient ''u2'' ''t1'' ''t2'' [''Patient Name'' \<mapsto> Str []] ''Doctor'' ''AB''
      sample))) = 2 \<and>
   at (last (p_df (snd (upsert_patient ''u2'' ''t1'' ''t2'' [''Patient Name'' \<mapsto> Str []] ''Doctor'' ''AB''
      sample)))) ''Patient Name'' = Str [] \<and>
   length (load_audit (backend (snd (upsert_patient ''u2'' ''t1'' ''t2'' [''Patient Name'' \<mapsto> Str []]
      ''Doctor'' ''AB'' sample)))) = 2 \<and>
   patients_medium (backend (snd (upsert_patient ''u2'' ''t1'' ''t2'' [''Patient Name'' \<mapsto> Str []]
      ''Doctor'' ''AB'' sample))) \<noteq> patients_medium (backend sample)"
proof -
  have u: "resolved_uid ''u2'' [''Patient Name'' \<mapsto> Str []] = Str ''u2''"
    by (simp add: resolved_uid_def)
  have n: "\<not> py_in (resolved_uid ''u2'' [''Patient Name'' \<mapsto> Str []]) (column ''uid'' (p_df sample))"
    by (simp add: u column_sample py_in_def)
  note r = upsert_absent [OF n surjective_pairing, of "''t1''" "''t2''" "''Doctor''" "''AB''"]
  have "at (last (p_df (snd (upsert_patient ''u2'' ''t1'' ''t2'' [''Patient Name'' \<mapsto> Str []] ''Doctor''
      ''AB'' sample)))) ''Patient Name'' = Str []"
    using name_stored [of Map.empty] by (simp add: r(2) dict_get_def)
  moreover have "length (p_df (snd (upsert_patient ''u2'' ''t1'' ''t2'' [''Patient Name'' \<mapsto> Str []]
      ''Doctor'' ''AB'' sample))) = 2"
    by (simp add: r(2) p_df_sample)
  moreover have "patients_medium (backend (snd (upsert_patient ''u2'' ''t1'' ''t2''
      [''Patient Name'' \<mapsto> Str []] ''Doctor'' ''AB'' sample))) \<noteq> patients_medium (backend sample)"
    by (simp add: upsert_patient_eq upsert_rows_absent [OF n]
          patients_medium_write_file [OF patients_medium_sample] patients_medium_sample to_csv_def)
       (simp add: p_df_sample)
  ultimately show ?thesis
    using r(1,4) by (simp add: u length_audit_sample)
qed

subsection \<open>The board view\<close>

text \<open>
  Claim C5. The sorted view is a rearrangement of the filtered records that ascends in
  the priority rank (High 0, Medium 1, Low 2, anything else 99) and, among records of
  one rank, descends in the instant of \<^verbatim>\<open>Last Updated\<close>, records without one last;
  records that tie on both keys keep the order they had in the input.
\<close>

theorem view_sort_stable:
  "sorted_wrt (row_le instant) (view_sort instant view_df) \<and>
   mset (view_sort instant view_df) = mset view_df \<and>
   filter (same_keys instant r) (view_sort instant view_df) = filter (same_keys instant r) view_df \<and>
   prio r = (let p = py_str (at r ''Priority'')
             in if p = ''High'' then 0 else if p = ''Medium'' then 1
                else if p = ''Low'' then 2 else 99) \<and>
   row_le instant a b =
     (prio a < prio b \<or>
      prio a = prio b \<and> lu_le instant (at a ''Last Updated'') (at b ''Last Updated'')) \<and>
   lu_le instant (Str x) (Str y) = (instant y \<le> instant x) \<and>
   lu_le instant v NaN \<and> \<not> lu_le instant NaN (Str y)"
proof -
  have "sorted_wrt (row_le instant) (view_sort instant view_df)"
    unfolding view_sort_def by (rule sorted_sort_by) (rule row_le_total, rule row_le_trans)
  moreover have "mset (view_sort instant view_df) = mset view_df"
    by (simp add: view_sort_def mset_sort_by)
  moreover have "filter (same_keys instant r) (view_sort instant view_df) =
      filter (same_keys instant r) view_df"
    unfolding view_sort_def
  proof (rule filter_sort_by)
    fix x y
    assume "same_keys instant r x" "same_keys instant r y"
    then show "row_le instant x y"
      using row_le_trans [of instant x r y] by (simp add: same_keys_def)
  qed
  ultimately show ?thesis
    using prio_cases [of r] by (simp add: row_le_def)
qed

text \<open>The theorem at the priorities Low, High, Medium: the view lists High, Medium,
  Low.\<close>

theorem view_sort_stable_witness:
  "sorted_wrt (row_le year) (view_sort year [bob, ann, cy]) \<and>
   view_sort year [bob, ann, cy] = [ann, cy, bob] \<and>
   map prio [ann, cy, bob] = [0, 1, 2]"
proof -
  have v: "view_sort year [bob, ann, cy] = [ann, cy, bob]"
    by (simp add: view_sort_def sort_by_def row_le_def prio_ann prio_bob prio_cy)
  have p: "map prio [ann, cy, bob] = [0, 1, 2]"
    by (simp add: prio_ann prio_bob prio_cy)
  have "sorted_wrt (row_le year) (view_sort year [bob, ann, cy])"
    using view_sort_stable [of year "[bob, ann, cy]"] by (rule conjunct1)
  with v p show ?thesis by blast
qed

subsection \<open>The pending jobs\<close>

text \<open>
  Claim C9. For every jobs text \<^verbatim>\<open>parse_jobs\<close> returns, line by line, one item per
  line that starts (once stripped) with the open or the done marker, and nothing for any
  other line; no line is both. The pending jobs of a view whose jobs are texts are, record
  by record, one row per open line, with the stripped text after the marker as the task;
  done lines and other lines give no row and no error.
\<close>

theorem pending_jobs_rows:
  "parse_jobs (Str jtxt) =
     Inr (map (\<lambda>l. (task_of l, done_item l))
            (filter (\<lambda>l. done_item l \<or> open_item l) (splitlines jtxt))) \<and>
   (open_item l \<longrightarrow> \<not> done_item l) \<and>
   ((\<forall>r \<in> set view_df. \<exists>t. dict_get r ''Jobs'' (Str []) = Str t) \<longrightarrow>
      pending_jobs view_df =
        Inr (concat (map (\<lambda>r. map (\<lambda>l. pending_entry r (task_of l))
               (filter open_item (splitlines (py_str (dict_get r ''Jobs'' (Str [])))))) view_df)))"
  using pending_loop_text [of view_df "[]"] open_not_done [of l]
  by (simp add: fold_parse_line pending_jobs_def)

text \<open>The theorem at the checklist of Bob: of its three lines only the open item gives a
  row.\<close>

theorem pending_jobs_rows_witness:
  "dict_get bob ''Jobs'' (Str []) =
     Str (''- [ ] book CT'' @ [CHR 0x0A] @ ''  - [x] bloods'' @ [CHR 0x0D, CHR 0x0A] @ ''review notes'') \<and>
   open_item ''- [ ] book CT'' \<and> \<not> done_item ''- [ ] book CT'' \<and>
   pending_jobs [bob] = Inr [pending_entry bob ''book CT'']"
proof -
  have h: "\<forall>r \<in> set [bob]. \<exists>t. dict_get r ''Jobs'' (Str []) = Str t"
    by (simp add: bob_jobs)
  have o: "open_item ''- [ ] book CT''"
    by (simp add: open_item_def strip_def startswith_def is_space_def)
  from h o pending_jobs_rows [where view_df = "[bob]" and l = "''- [ ] book CT''"]
  have "\<not> done_item ''- [ ] book CT''" and
    "pending_jobs [bob] =
        Inr (concat (map (\<lambda>r. map (\<lambda>l. pending_entry r (task_of l))
               (filter open_item (splitlines (py_str (dict_get r ''Jobs'' (Str [])))))) [bob]))"
    by blast+
  moreover have "concat (map (\<lambda>r. map (\<lambda>l. pending_entry r (task_of l))
               (filter open_item (splitlines (py_str (dict_get r ''Jobs'' (Str [])))))) [bob]) =
      [pending_entry bob ''book CT'']"
    by (simp only: list.map concat.simps bob_jobs py_str.simps bob_lines bob_open bob_task
          append_Nil2)
  ultimately show ?thesis
    using o bob_jobs by (simp only: simp_thms)
qed

end
